theory Spec2Isabelle
  imports Complex_Main "HOL-Library.Word"
begin

section \<open>Gradient compression (horovod/tensorflow/compression.py)\<close>

text \<open>
  The module holds three compressors with the interface
  \<^verbatim>\<open>compress(tensor) -> (tensor, ctx)\<close> and
  \<^verbatim>\<open>decompress(tensor, ctx) -> tensor\<close>: \<^verbatim>\<open>NoneCompressor\<close>,
  \<^verbatim>\<open>FP16Compressor\<close> and \<^verbatim>\<open>INT8Compressor\<close>. The Python functions
  are embedded as HOL functions over a model of the TensorFlow tensors they handle.

  Conventions of the model:
  \<^item> A tensor is its dtype tag, its shape and the list of its elements. An element is
    modelled by its numeric value, a real number; the values are finite (no overflow, no
    inf or NaN among the elements of a tensor).
  \<^item> The rounding of a real number onto the values of a dtype is a parameter \<open>rnd\<close> of the
    model: \<open>rnd d x\<close> is the value of dtype \<open>d\<close> that the runtime stores for \<open>x\<close>. Every
    floating-point operation gives the exact result rounded onto the dtype it is computed
    in, and so does \<^verbatim>\<open>tf.cast\<close> onto a dtype other than int8. The conversion to int8
    is written out, since the quantisation depends on it.
  \<^item> A Python float is a double: Python's float arithmetic rounds onto float64. A Python
    scalar that meets a tensor in an operation is first converted to the tensor's dtype.
  \<^item> Python's \<^verbatim>\<open>/\<close> is true division (Python 3, which the call
    \<^verbatim>\<open>INT8Compressor.compress(tensor, ...)\<close> of a method without
    \<^verbatim>\<open>@staticmethod\<close> needs); \<^verbatim>\<open>horovod_size\<close> is a Python int, so dividing by
    it raises \<^verbatim>\<open>ZeroDivisionError\<close> when it is 0; \<^verbatim>\<open>global_max\<close> and
    \<^verbatim>\<open>global_min\<close> are Python floats.
\<close>

subsection \<open>Tensors and dtypes\<close>

text \<open>The dtypes of TensorFlow; \<^verbatim>\<open>DType.is_floating\<close> holds of the real floating-point ones.\<close>

datatype dtype =
    float16 | float32 | float64 | bfloat16
  | complex64 | complex128
  | int8 | uint8 | uint16 | uint32 | uint64 | int16 | int32 | int64
  | bool | string
  | qint8 | quint8 | qint16 | quint16 | qint32
  | resource | variant

fun is_floating :: "dtype \<Rightarrow> bool" where
  "is_floating float16 = True"
| "is_floating float32 = True"
| "is_floating float64 = True"
| "is_floating bfloat16 = True"
| "is_floating _ = False"

record tensor =
  dtype :: dtype
  shape :: "nat list"
  vals :: "real list"

text \<open>An elementwise operation: a new tensor of the same dtype and shape.\<close>

definition tensor_map :: "(real \<Rightarrow> real) \<Rightarrow> tensor \<Rightarrow> tensor" where
  "tensor_map f t = t\<lparr>vals := map f (vals t)\<rparr>"

subsection \<open>The TensorFlow operations the module calls\<close>

text \<open>
  \<^verbatim>\<open>tf.math.round\<close>: to the nearest integer, a tie to the even one. The result of
  rounding a value of a floating dtype is a value of that dtype.
\<close>

definition round_half_even :: "real \<Rightarrow> int" where
  "round_half_even x =
     (let f = \<lfloor>x\<rfloor>; d = x - of_int f
      in if d < 1 / 2 then f
         else if 1 / 2 < d then f + 1
         else if even f then f else f + 1)"

definition tf_round :: "tensor \<Rightarrow> tensor" where
  "tf_round t = tensor_map (\<lambda>x. of_int (round_half_even x)) t"

text \<open>
  \<^verbatim>\<open>tf.clip_by_value(t, clip_value_min, clip_value_max)\<close> computes
  \<^verbatim>\<open>maximum(minimum(t, clip_value_max), clip_value_min)\<close>, the two bounds converted
  to the dtype of \<open>t\<close>.
\<close>

definition clip :: "real \<Rightarrow> real \<Rightarrow> real \<Rightarrow> real" where
  "clip clip_value_min clip_value_max x = max (min x clip_value_max) clip_value_min"

definition tf_clip_by_value ::
  "(dtype \<Rightarrow> real \<Rightarrow> real) \<Rightarrow> tensor \<Rightarrow> real \<Rightarrow> real \<Rightarrow> tensor" where
  "tf_clip_by_value rnd t clip_value_min clip_value_max =
     tensor_map (clip (rnd (dtype t) clip_value_min) (rnd (dtype t) clip_value_max)) t"

text \<open>
  The arithmetic of a floating tensor with a Python scalar, \<^verbatim>\<open>tensor - c\<close>,
  \<^verbatim>\<open>tensor / c\<close>, \<^verbatim>\<open>tensor * c\<close> and \<^verbatim>\<open>tensor + c\<close>: the scalar is
  converted to the tensor's dtype and each element's exact result is rounded onto that
  dtype. The division is used with a divisor that is not zero in the dtype.
\<close>

definition fl_sub :: "(dtype \<Rightarrow> real \<Rightarrow> real) \<Rightarrow> dtype \<Rightarrow> real \<Rightarrow> real \<Rightarrow> real" where
  "fl_sub rnd d x c = rnd d (x - rnd d c)"

definition fl_truediv :: "(dtype \<Rightarrow> real \<Rightarrow> real) \<Rightarrow> dtype \<Rightarrow> real \<Rightarrow> real \<Rightarrow> real" where
  "fl_truediv rnd d x c = rnd d (x / rnd d c)"

definition fl_mul :: "(dtype \<Rightarrow> real \<Rightarrow> real) \<Rightarrow> dtype \<Rightarrow> real \<Rightarrow> real \<Rightarrow> real" where
  "fl_mul rnd d x c = rnd d (x * rnd d c)"

definition fl_add :: "(dtype \<Rightarrow> real \<Rightarrow> real) \<Rightarrow> dtype \<Rightarrow> real \<Rightarrow> real \<Rightarrow> real" where
  "fl_add rnd d x c = rnd d (x + rnd d c)"

definition tf_sub :: "(dtype \<Rightarrow> real \<Rightarrow> real) \<Rightarrow> tensor \<Rightarrow> real \<Rightarrow> tensor" where
  "tf_sub rnd t c = tensor_map (\<lambda>x. fl_sub rnd (dtype t) x c) t"

definition tf_truediv :: "(dtype \<Rightarrow> real \<Rightarrow> real) \<Rightarrow> tensor \<Rightarrow> real \<Rightarrow> tensor" where
  "tf_truediv rnd t c = tensor_map (\<lambda>x. fl_truediv rnd (dtype t) x c) t"

definition tf_mul :: "(dtype \<Rightarrow> real \<Rightarrow> real) \<Rightarrow> tensor \<Rightarrow> real \<Rightarrow> tensor" where
  "tf_mul rnd t c = tensor_map (\<lambda>x. fl_mul rnd (dtype t) x c) t"

definition tf_add :: "(dtype \<Rightarrow> real \<Rightarrow> real) \<Rightarrow> tensor \<Rightarrow> real \<Rightarrow> tensor" where
  "tf_add rnd t c = tensor_map (\<lambda>x. fl_add rnd (dtype t) x c) t"

text \<open>The result of an operation on Python floats: the exact result rounded to a double.\<close>

definition py_float :: "(dtype \<Rightarrow> real \<Rightarrow> real) \<Rightarrow> real \<Rightarrow> real" where
  "py_float rnd x = rnd float64 x"

text \<open>
  \<^verbatim>\<open>tf.cast(x, tf.int8)\<close> of a floating value drops the fraction (rounds towards zero)
  and stores the integer in 8 bits. An integer outside \<open>[-128, 127]\<close> has no specified
  result in TensorFlow; here it wraps around, as the 8-bit word does.
\<close>

definition trunc :: "real \<Rightarrow> int" where
  "trunc x = (if x < 0 then \<lceil>x\<rceil> else \<lfloor>x\<rfloor>)"

definition cast_int8 :: "real \<Rightarrow> 8 word" where
  "cast_int8 x = word_of_int (trunc x)"

text \<open>The value of an int8 element, as the tensor's element list holds it.\<close>

definition int8_value :: "8 word \<Rightarrow> real" where
  "int8_value w = of_int (sint w)"

definition cast_value :: "(dtype \<Rightarrow> real \<Rightarrow> real) \<Rightarrow> dtype \<Rightarrow> real \<Rightarrow> real" where
  "cast_value rnd d x = (if d = int8 then int8_value (cast_int8 x) else rnd d x)"

definition tf_cast :: "(dtype \<Rightarrow> real \<Rightarrow> real) \<Rightarrow> tensor \<Rightarrow> dtype \<Rightarrow> tensor" where
  "tf_cast rnd t d = t\<lparr>dtype := d, vals := map (cast_value rnd d) (vals t)\<rparr>"

subsection \<open>NoneCompressor\<close>

text \<open>
  The context of a compressor is a \<^verbatim>\<open>DType\<close> or Python's \<^verbatim>\<open>None\<close>: a
  \<open>dtype option\<close>. \<open>NoneCompressor\<close> returns \<open>None\<close> and ignores the context it is
  given.
\<close>

definition NoneCompressor_compress :: "tensor \<Rightarrow> tensor \<times> dtype option" where
  "NoneCompressor_compress tensor = (tensor, None)"

definition NoneCompressor_decompress :: "tensor \<Rightarrow> dtype option \<Rightarrow> tensor" where
  "NoneCompressor_decompress tensor ctx = tensor"

subsection \<open>FP16Compressor\<close>

text \<open>
  The context of \<open>FP16Compressor\<close> and \<open>INT8Compressor\<close> is the \<^verbatim>\<open>DType\<close> that
  \<open>compress\<close> returned; \<open>decompress\<close> reads its \<^verbatim>\<open>is_floating\<close>.
\<close>

definition FP16Compressor_compress ::
  "(dtype \<Rightarrow> real \<Rightarrow> real) \<Rightarrow> tensor \<Rightarrow> tensor \<times> dtype" where
  "FP16Compressor_compress rnd tensor =
     (let tensor_compressed = tensor;
          tensor_compressed =
            (if is_floating (dtype tensor) then tf_cast rnd tensor float16
             else tensor_compressed)
      in (tensor_compressed, dtype tensor))"

definition FP16Compressor_decompress ::
  "(dtype \<Rightarrow> real \<Rightarrow> real) \<Rightarrow> tensor \<Rightarrow> dtype \<Rightarrow> tensor" where
  "FP16Compressor_decompress rnd tensor ctx =
     (let tensor_decompressed = tensor;
          dtype = ctx;
          tensor_decompressed =
            (if is_floating dtype then tf_cast rnd tensor dtype
             else tensor_decompressed)
      in tensor_decompressed)"

subsection \<open>INT8Compressor\<close>

text \<open>
  \<open>ZeroDivisionError\<close> is Python's exception for \<^verbatim>\<open>2**(8-1)/horovod_size\<close> with
  \<^verbatim>\<open>horovod_size == 0\<close>, the one way a call does not return.
\<close>

datatype failure = ZeroDivisionError

text \<open>
  When \<^verbatim>\<open>global_max - global_min\<close> is zero in the tensor's dtype, the division of
  line 85 raises nothing: an element \<open>a\<close> of \<^verbatim>\<open>tensor - global_min\<close> becomes NaN
  when \<open>a = 0\<close>, and otherwise plus or minus infinity, by the sign of \<open>a\<close> and of the zero
  (negative when the Python difference \<open>value_range\<close> is negative). Line 86 multiplies by
  \<open>scale\<close>, the difference of the two bounds in the dtype: infinity times zero is NaN, and
  a negative \<open>scale\<close> changes the sign. The rounding keeps an infinity, the clip
  \<^verbatim>\<open>maximum(minimum(x, hi), lo)\<close> turns plus infinity into \<open>max hi lo\<close> and minus
  infinity into \<open>lo\<close>, and the cast makes it an int8. What the runtime makes of a NaN
  element is not specified: it is the parameter \<open>nan_int8\<close>.
\<close>

definition zero_division_element ::
  "8 word \<Rightarrow> real \<Rightarrow> real \<Rightarrow> real \<Rightarrow> real \<Rightarrow> real \<Rightarrow> 8 word" where
  "zero_division_element nan_int8 value_range scale lo hi a =
     (if a = 0 \<or> scale = 0 then nan_int8
      else if ((0 < a) = (0 \<le> value_range)) = (0 < scale) then cast_int8 (max hi lo)
      else cast_int8 lo)"

definition INT8Compressor_compress ::
  "(dtype \<Rightarrow> real \<Rightarrow> real) \<Rightarrow> 8 word \<Rightarrow> tensor \<Rightarrow> int \<Rightarrow> real \<Rightarrow> real \<Rightarrow>
     failure + tensor \<times> dtype" where
  "INT8Compressor_compress rnd nan_int8 tensor horovod_size global_max global_min =
     (if is_floating (dtype tensor) then
        if horovod_size = 0 then Inl ZeroDivisionError
        else
          let valid_max = py_float rnd (py_float rnd (2 ^ (8 - 1) / of_int horovod_size) - 1);
              valid_min =
                py_float rnd
                  (py_float rnd (py_float rnd (2 ^ (8 - 1) / of_int horovod_size) - 1) * - 1);
              value_range = py_float rnd (global_max - global_min);
              scale = py_float rnd (valid_max - valid_min);
              d = dtype tensor;
              tensor_compressed = tensor;
              tensor_compressed = tf_sub rnd tensor_compressed global_min
          in if rnd d value_range = 0 then
               Inr (tensor_compressed
                      \<lparr>dtype := int8,
                       vals := map (\<lambda>a. int8_value
                                 (zero_division_element nan_int8 value_range (rnd d scale)
                                    (rnd d valid_min) (rnd d valid_max) a))
                               (vals tensor_compressed)\<rparr>, dtype tensor)
             else
               let tensor_compressed = tf_truediv rnd tensor_compressed value_range;
                   tensor_compressed =
                     tf_add rnd (tf_mul rnd tensor_compressed scale) valid_min;
                   tensor_compressed = tf_round tensor_compressed;
                   tensor_compressed =
                     tf_clip_by_value rnd tensor_compressed valid_min valid_max;
                   tensor_compressed = tf_cast rnd tensor_compressed int8
               in Inr (tensor_compressed, dtype tensor)
      else Inr (tensor, dtype tensor))"

text \<open>
  In \<open>decompress\<close> the two bounds are Python ints, \<open>127\<close> and \<open>-127\<close>, and so is their
  difference \<open>254\<close>; they are converted to the dtype where they meet the tensor.
\<close>

definition INT8Compressor_decompress ::
  "(dtype \<Rightarrow> real \<Rightarrow> real) \<Rightarrow> tensor \<Rightarrow> dtype \<Rightarrow> real \<Rightarrow> real \<Rightarrow> tensor" where
  "INT8Compressor_decompress rnd tensor ctx global_max global_min =
     (let tensor_decompressed = tensor;
          dtype = ctx
      in if is_floating dtype then
           let valid_max = (2 ^ (8 - 1) - 1 :: int);
               valid_min = (2 ^ (8 - 1) - 1) * - 1;
               tensor_decompressed = tf_cast rnd tensor_decompressed dtype;
               tensor_decompressed =
                 tf_truediv rnd (tf_sub rnd tensor_decompressed (of_int valid_min))
                   (of_int (valid_max - valid_min));
               tensor_decompressed =
                 tf_add rnd
                   (tf_mul rnd tensor_decompressed (py_float rnd (global_max - global_min)))
                   global_min
           in tensor_decompressed
         else tensor_decompressed)"

subsection \<open>What the theorems assume of the rounding\<close>

text \<open>
  The rounding \<open>r\<close> onto a floating dtype is monotone, leaves a value of the dtype as it
  is, commutes with the sign, and is exact on the numbers \<open>m / 2^j\<close> with
  \<open>|m| \<le> 256\<close> and \<open>j \<le> 8\<close>: they have at most eight significant bits and a magnitude
  between \<open>2^-8\<close> and \<open>256\<close>, so float16, bfloat16, float32 and float64 all hold them.
  Rounding to nearest, as the runtime does for each of the four dtypes, has these
  properties.
\<close>

definition float_rounding :: "(real \<Rightarrow> real) \<Rightarrow> bool" where
  "float_rounding r \<longleftrightarrow>
     (\<forall>x y. x \<le> y \<longrightarrow> r x \<le> r y) \<and>
     (\<forall>x. r (r x) = r x) \<and>
     (\<forall>x. r (- x) = - r x) \<and>
     (\<forall>m j. \<bar>m\<bar> \<le> 256 \<and> j \<le> 8 \<longrightarrow> r (of_int m / 2 ^ j) = of_int m / 2 ^ j)"

subsection \<open>The quantisation in the words of the specification\<close>

text \<open>
  The specification describes \<open>INT8Compressor.compress\<close> element by element:
  \<open>valid_max = 2^7/horovod_size - 1\<close>, \<open>valid_min = -valid_max\<close>,
  \<open>norm = (x - global_min) / (global_max - global_min)\<close>,
  \<open>scaled = norm * (valid_max - valid_min) + valid_min\<close>, then round, clip to
  \<open>[valid_min, valid_max]\<close> and cast to signed 8-bit, each operation being the one of the
  numeric runtime: the scalars are computed in Python floats, the operations on the
  element in its dtype \<open>d\<close>. \<open>spec_clipped\<close> is the value before the cast and
  \<open>spec_quantize\<close> the 8-bit result. They are compared with the code below.
\<close>

definition spec_clipped ::
  "(dtype \<Rightarrow> real \<Rightarrow> real) \<Rightarrow> dtype \<Rightarrow> int \<Rightarrow> real \<Rightarrow> real \<Rightarrow> real \<Rightarrow> real" where
  "spec_clipped rnd d horovod_size global_max global_min x =
     (let valid_max = py_float rnd (py_float rnd (2 ^ 7 / of_int horovod_size) - 1);
          valid_min = - valid_max;
          norm = fl_truediv rnd d (fl_sub rnd d x global_min)
                   (py_float rnd (global_max - global_min));
          scaled = fl_add rnd d (fl_mul rnd d norm (py_float rnd (valid_max - valid_min)))
                     valid_min
      in clip (rnd d valid_min) (rnd d valid_max) (of_int (round_half_even scaled)))"

definition spec_quantize ::
  "(dtype \<Rightarrow> real \<Rightarrow> real) \<Rightarrow> dtype \<Rightarrow> int \<Rightarrow> real \<Rightarrow> real \<Rightarrow> real \<Rightarrow> 8 word" where
  "spec_quantize rnd d horovod_size global_max global_min x =
     cast_int8 (spec_clipped rnd d horovod_size global_max global_min x)"

text \<open>
  And \<open>INT8Compressor.decompress\<close>: \<open>valid_max = 2^7 - 1\<close>, \<open>valid_min = -127\<close>,
  \<open>norm = (x - valid_min) / (valid_max - valid_min)\<close>,
  \<open>result = norm * (global_max - global_min) + global_min\<close>, again in the arithmetic of
  the dtype \<open>d\<close>.
\<close>

definition spec_dequantize ::
  "(dtype \<Rightarrow> real \<Rightarrow> real) \<Rightarrow> dtype \<Rightarrow> real \<Rightarrow> real \<Rightarrow> real \<Rightarrow> real" where
  "spec_dequantize rnd d global_max global_min x =
     (let valid_max = 2 ^ 7 - 1;
          valid_min = - valid_max;
          norm = fl_truediv rnd d (fl_sub rnd d x valid_min) (valid_max - valid_min)
      in fl_add rnd d (fl_mul rnd d norm (py_float rnd (global_max - global_min)))
           global_min)"

subsection \<open>The rounding of float32 in the sum scenario\<close>

text \<open>
  A rounding to run the sum-then-decompress scenario on a float32 tensor as the runtime
  does. Every value that computation meets is held exactly by float32 and by the double,
  except the quotient \<open>63/254\<close>, which float32 rounds to the nearest of its values,
  \<open>2080639/8388608\<close>.
\<close>

definition float32_on_sum_scenario :: "dtype \<Rightarrow> real \<Rightarrow> real" where
  "float32_on_sum_scenario d x = (if x = 63 / 254 then 2080639 / 8388608 else x)"

subsection \<open>The sum of the peers' payloads\<close>

text \<open>
  Modelled from the spec: the aggregation engine that calls the compressors is not part of
  this module. In the sum-then-decompress scenario the peers' quantised integers are summed
  elementwise (simulating allreduce) before the sum is decompressed. The sum is taken in
  the payload's own type, signed 8-bit, so it wraps around as the 8-bit word does; the
  result keeps the dtype and shape of the first payload.
\<close>

definition int8_add :: "tensor \<Rightarrow> tensor \<Rightarrow> tensor" where
  "int8_add a b =
     a\<lparr>vals := map2 (\<lambda>x y. int8_value (cast_int8 x + cast_int8 y)) (vals a) (vals b)\<rparr>"

fun allreduce_sum :: "tensor \<Rightarrow> tensor list \<Rightarrow> tensor" where
  "allreduce_sum acc [] = acc"
| "allreduce_sum acc (p # ps) = allreduce_sum (int8_add acc p) ps"

subsection \<open>Auxiliary facts\<close>

lemma float_rounding_mono:
  assumes "float_rounding r" and "x \<le> y"
  shows "r x \<le> r y"
  using assms by (simp add: float_rounding_def)

lemma float_rounding_idem:
  assumes "float_rounding r"
  shows "r (r x) = r x"
  using assms by (simp add: float_rounding_def)

lemma float_rounding_minus:
  assumes "float_rounding r"
  shows "r (- x) = - r x"
  using assms by (simp add: float_rounding_def)

lemma float_rounding_grid:
  assumes "float_rounding r" and "\<bar>m\<bar> \<le> 256" and "j \<le> 8"
  shows "r (of_int m / 2 ^ j) = of_int m / 2 ^ j"
  using assms by (simp add: float_rounding_def)

lemma float_rounding_int:
  assumes "float_rounding r" and "\<bar>k\<bar> \<le> 256"
  shows "r (of_int k) = of_int k"
  using float_rounding_grid [OF assms, of 0] by simp

lemma float_rounding_ge:
  assumes "float_rounding r" and "r a = a" and "a \<le> x"
  shows "a \<le> r x"
  using float_rounding_mono [OF assms(1,3)] assms(2) by simp

lemma float_rounding_le:
  assumes "float_rounding r" and "r b = b" and "x \<le> b"
  shows "r x \<le> b"
  using float_rounding_mono [OF assms(1,3)] assms(2) by simp

lemma float_rounding_id: "float_rounding (\<lambda>x. x)"
  by (simp add: float_rounding_def)

lemma tensor_map_fields [simp]:
  "dtype (tensor_map f t) = dtype t"
  "shape (tensor_map f t) = shape t"
  "vals (tensor_map f t) = map f (vals t)"
  by (simp_all add: tensor_map_def)

lemma tf_ops_fields [simp]:
  "dtype (tf_sub rnd t c) = dtype t" "shape (tf_sub rnd t c) = shape t"
  "vals (tf_sub rnd t c) = map (\<lambda>x. fl_sub rnd (dtype t) x c) (vals t)"
  "dtype (tf_truediv rnd t c) = dtype t" "shape (tf_truediv rnd t c) = shape t"
  "vals (tf_truediv rnd t c) = map (\<lambda>x. fl_truediv rnd (dtype t) x c) (vals t)"
  "dtype (tf_mul rnd t c) = dtype t" "shape (tf_mul rnd t c) = shape t"
  "vals (tf_mul rnd t c) = map (\<lambda>x. fl_mul rnd (dtype t) x c) (vals t)"
  "dtype (tf_add rnd t c) = dtype t" "shape (tf_add rnd t c) = shape t"
  "vals (tf_add rnd t c) = map (\<lambda>x. fl_add rnd (dtype t) x c) (vals t)"
  "dtype (tf_round t) = dtype t" "shape (tf_round t) = shape t"
  "vals (tf_round t) = map (\<lambda>x. of_int (round_half_even x)) (vals t)"
  "dtype (tf_clip_by_value rnd t lo hi) = dtype t" "shape (tf_clip_by_value rnd t lo hi) = shape t"
  "vals (tf_clip_by_value rnd t lo hi) = map (clip (rnd (dtype t) lo) (rnd (dtype t) hi)) (vals t)"
  by (simp_all add: tf_sub_def tf_truediv_def tf_mul_def tf_add_def tf_round_def
      tf_clip_by_value_def)

lemma tf_cast_fields [simp]:
  "dtype (tf_cast rnd t d) = d" "shape (tf_cast rnd t d) = shape t"
  "vals (tf_cast rnd t d) = map (cast_value rnd d) (vals t)"
  by (simp_all add: tf_cast_def)

lemma tensor_eqI:
  fixes a b :: tensor
  assumes "dtype a = dtype b" and "shape a = shape b" and "vals a = vals b"
  shows "a = b"
  using assms by simp

lemma valid_min_python:
  assumes "float_rounding (rnd float64)"
  shows "py_float rnd (py_float rnd (py_float rnd (2 ^ (8 - 1) / real_of_int hs) - 1) * - 1) =
         - py_float rnd (py_float rnd (2 ^ 7 / real_of_int hs) - 1)"
proof -
  define v where "v = rnd float64 (2 ^ 7 / real_of_int hs) - 1"
  have "rnd float64 (rnd float64 v * - 1) = rnd float64 (- rnd float64 v)"
    by simp
  also have "\<dots> = - rnd float64 (rnd float64 v)"
    by (rule float_rounding_minus [OF assms])
  also have "\<dots> = - rnd float64 v"
    by (simp add: float_rounding_idem [OF assms])
  finally show ?thesis
    by (simp add: py_float_def v_def)
qed

lemma INT8_compress_floating:
  assumes "is_floating (dtype t)" and "hs \<noteq> 0" and "float_rounding (rnd float64)"
    and "rnd (dtype t) (py_float rnd (gmax - gmin)) \<noteq> 0"
  shows "INT8Compressor_compress rnd nan8 t hs gmax gmin =
     Inr (\<lparr>dtype = int8, shape = shape t,
            vals = map (\<lambda>x. int8_value (spec_quantize rnd (dtype t) hs gmax gmin x)) (vals t)\<rparr>,
          dtype t)"
proof -
  have seven: "(2::real) ^ (8 - 1) = 2 ^ 7"
    by simp
  note vmin = valid_min_python [of rnd, OF assms(3)]
  show ?thesis
    using assms(1,2,4)
    unfolding INT8Compressor_compress_def Let_def vmin
    by (auto intro!: tensor_eqI
        simp: spec_quantize_def spec_clipped_def cast_value_def Let_def o_def seven)
qed

lemma INT8_decompress_floating:
  assumes "is_floating ctx"
  shows "INT8Compressor_decompress rnd t ctx gmax gmin =
     \<lparr>dtype = ctx, shape = shape t,
      vals = map (\<lambda>x. spec_dequantize rnd ctx gmax gmin (cast_value rnd ctx x)) (vals t)\<rparr>"
  using assms
  by (auto intro!: tensor_eqI
      simp: INT8Compressor_decompress_def spec_dequantize_def Let_def o_def)

lemma tf_cast_floating:
  assumes "is_floating d"
  shows "tf_cast rnd t d = \<lparr>dtype = d, shape = shape t, vals = map (rnd d) (vals t)\<rparr>"
proof -
  from assms have "d \<noteq> int8"
    by auto
  then have "cast_value rnd d = rnd d"
    by (simp add: cast_value_def fun_eq_iff)
  then show ?thesis
    by (simp add: tf_cast_def)
qed

lemma tf_cast_float16:
  "tf_cast rnd t float16 = \<lparr>dtype = float16, shape = shape t, vals = map (rnd float16) (vals t)\<rparr>"
  by (rule tf_cast_floating) simp

lemma round_half_even_lower: "x - 1 / 2 \<le> of_int (round_half_even x)"
  unfolding round_half_even_def Let_def by (simp; linarith)

lemma round_half_even_upper: "of_int (round_half_even x) \<le> x + 1 / 2"
  unfolding round_half_even_def Let_def by (simp; linarith)

lemma sint_word_of_int_int8:
  assumes "- 128 \<le> k" and "k < 128"
  shows "sint (word_of_int k :: 8 word) = k"
  using assms by (simp add: signed_of_int signed_take_bit_int_eq_self)

lemma clip_within:
  assumes "- 127 \<le> lo" and "lo \<le> 127" and "hi \<le> 127"
  shows "- 127 \<le> clip lo hi x" and "clip lo hi x \<le> 127"
  using assms by (simp_all add: clip_def)

lemma trunc_within:
  assumes "- 127 \<le> c" and "c \<le> 127"
  shows "- 127 \<le> trunc c" and "trunc c \<le> 127"
proof -
  show "- 127 \<le> trunc c"
    using assms(1) unfolding trunc_def by (simp add: le_floor_iff le_ceiling_iff; (linarith)?)
  show "trunc c \<le> 127"
    using assms(2) unfolding trunc_def by (simp add: floor_le_iff ceiling_le_iff; (linarith)?)
qed

lemma cast_int8_exact:
  assumes "- 127 \<le> c" and "c \<le> 127"
  shows "sint (cast_int8 c) = trunc c"
  using trunc_within [OF assms] by (simp add: cast_int8_def sint_word_of_int_int8)

lemma int_le_of_half:
  fixes a b :: int
  assumes "real_of_int a - 1 / 2 \<le> real_of_int b"
  shows "a \<le> b"
proof -
  from assms have "real_of_int a < real_of_int (b + 1)"
    by simp
  then have "a < b + 1"
    by (simp only: of_int_less_iff)
  then show ?thesis
    by simp
qed

lemma round_half_even_ge:
  assumes "real_of_int k \<le> x"
  shows "k \<le> round_half_even x"
proof -
  have "x - 1 / 2 \<le> real_of_int (round_half_even x)"
    by (rule round_half_even_lower)
  with assms have "real_of_int k - 1 / 2 \<le> real_of_int (round_half_even x)"
    by linarith
  then show ?thesis
    by (rule int_le_of_half)
qed

lemma round_half_even_le:
  assumes "x \<le> real_of_int k"
  shows "round_half_even x \<le> k"
proof -
  have "real_of_int (round_half_even x) \<le> x + 1 / 2"
    by (rule round_half_even_upper)
  with assms have "real_of_int (- k) - 1 / 2 \<le> real_of_int (- round_half_even x)"
    by simp
  then have "- k \<le> - round_half_even x"
    by (rule int_le_of_half)
  then show ?thesis
    by simp
qed

lemma trunc_of_int: "trunc (real_of_int k) = k"
  by (simp add: trunc_def)

lemma valid_max_range:
  assumes "float_rounding (rnd float64)" and "1 \<le> hs"
  shows "- 1 \<le> py_float rnd (py_float rnd (2 ^ 7 / real_of_int hs) - 1)"
    and "py_float rnd (py_float rnd (2 ^ 7 / real_of_int hs) - 1) \<le> 127"
proof -
  let ?P = "rnd float64"
  have p0: "?P 0 = 0" and p128: "?P 128 = 128" and pm1: "?P (- 1) = - 1" and p127: "?P 127 = 127"
    using float_rounding_int [OF assms(1), of 0] float_rounding_int [OF assms(1), of 128]
      float_rounding_int [OF assms(1), of "- 1"] float_rounding_int [OF assms(1), of 127]
    by simp_all
  from assms(2) have pos: "0 < real_of_int hs" and ge1: "1 \<le> real_of_int hs"
    by simp_all
  have q0: "0 \<le> 2 ^ 7 / real_of_int hs"
    using pos by simp
  have "2 ^ 7 / real_of_int hs \<le> 2 ^ 7 / 1"
    using ge1 by (intro divide_left_mono) simp_all
  then have q128: "2 ^ 7 / real_of_int hs \<le> 128"
    by simp
  have "0 \<le> ?P (2 ^ 7 / real_of_int hs)"
    by (rule float_rounding_ge [OF assms(1) p0 q0])
  then have lo: "- 1 \<le> ?P (2 ^ 7 / real_of_int hs) - 1"
    by simp
  have "?P (2 ^ 7 / real_of_int hs) \<le> 128"
    by (rule float_rounding_le [OF assms(1) p128 q128])
  then have hi: "?P (2 ^ 7 / real_of_int hs) - 1 \<le> 127"
    by simp
  show "- 1 \<le> py_float rnd (py_float rnd (2 ^ 7 / real_of_int hs) - 1)"
    unfolding py_float_def by (rule float_rounding_ge [OF assms(1) pm1 lo])
  show "py_float rnd (py_float rnd (2 ^ 7 / real_of_int hs) - 1) \<le> 127"
    unfolding py_float_def by (rule float_rounding_le [OF assms(1) p127 hi])
qed

lemma clipped_within:
  assumes "float_rounding (rnd float64)" and "float_rounding (rnd d)" and "1 \<le> hs"
  shows "- 127 \<le> spec_clipped rnd d hs gmax gmin x"
    and "spec_clipped rnd d hs gmax gmin x \<le> 127"
proof -
  define valid_max where "valid_max = py_float rnd (py_float rnd (2 ^ 7 / real_of_int hs) - 1)"
  have r: "rnd d (- 127) = - 127" "rnd d (- 1) = - 1" "rnd d 1 = 1" "rnd d 127 = 127"
    using float_rounding_int [OF assms(2), of "- 127"] float_rounding_int [OF assms(2), of "- 1"]
      float_rounding_int [OF assms(2), of 1] float_rounding_int [OF assms(2), of 127]
    by simp_all
  have vlo: "- 1 \<le> valid_max" and vhi: "valid_max \<le> 127"
    unfolding valid_max_def by (rule valid_max_range [of rnd, OF assms(1,3)])+
  have hi: "rnd d valid_max \<le> 127"
    by (rule float_rounding_le [OF assms(2) r(4) vhi])
  from vlo vhi have "- 127 \<le> - valid_max" and "- valid_max \<le> 1"
    by linarith+
  then have lo: "- 127 \<le> rnd d (- valid_max)" and "rnd d (- valid_max) \<le> 1"
    by (auto intro: float_rounding_ge [OF assms(2) r(1)] float_rounding_le [OF assms(2) r(3)])
  then have lo': "rnd d (- valid_max) \<le> 127"
    by linarith
  show "- 127 \<le> spec_clipped rnd d hs gmax gmin x"
    and "spec_clipped rnd d hs gmax gmin x \<le> 127"
    unfolding spec_clipped_def Let_def valid_max_def [symmetric]
    by (rule clip_within [OF lo lo' hi])+
qed

lemma quantize_exact:
  assumes "float_rounding (rnd float64)" and "float_rounding (rnd d)" and "1 \<le> hs"
  shows "sint (spec_quantize rnd d hs gmax gmin x) = trunc (spec_clipped rnd d hs gmax gmin x)"
  unfolding spec_quantize_def by (rule cast_int8_exact) (rule clipped_within [of rnd d, OF assms])+

lemma quantize_within:
  assumes "float_rounding (rnd float64)" and "float_rounding (rnd d)" and "1 \<le> hs"
  shows "- 127 \<le> sint (spec_quantize rnd d hs gmax gmin x)"
    and "sint (spec_quantize rnd d hs gmax gmin x) \<le> 127"
  unfolding quantize_exact [of rnd d, OF assms]
  by (rule trunc_within [OF clipped_within [of rnd d, OF assms]])+

lemma int8_add_replicate:
  "int8_add \<lparr>dtype = d, shape = s, vals = replicate n a\<rparr>
            \<lparr>dtype = d', shape = s', vals = replicate n b\<rparr> =
     \<lparr>dtype = d, shape = s, vals = replicate n (int8_value (cast_int8 a + cast_int8 b))\<rparr>"
  by (simp add: int8_add_def)

lemma cast_int8_neg16: "cast_int8 (- 16) = - 16"
  by (simp add: cast_int8_def trunc_def)

lemma cast_int8_neg32: "cast_int8 (- 32) = - 32"
  by (simp add: cast_int8_def trunc_def)

lemma cast_int8_neg48: "cast_int8 (- 48) = - 48"
  by (simp add: cast_int8_def trunc_def)

lemma int8_value_neg32: "int8_value (- 32) = - 32"
  by (simp add: int8_value_def)

lemma int8_value_neg48: "int8_value (- 48) = - 48"
  by (simp add: int8_value_def)

lemma int8_value_neg64: "int8_value (- 64) = - 64"
  by (simp add: int8_value_def)

lemma allreduce_sum_four:
  "allreduce_sum \<lparr>dtype = int8, shape = s, vals = replicate n (- 16)\<rparr>
     [\<lparr>dtype = int8, shape = s, vals = replicate n (- 16)\<rparr>,
      \<lparr>dtype = int8, shape = s, vals = replicate n (- 16)\<rparr>,
      \<lparr>dtype = int8, shape = s, vals = replicate n (- 16)\<rparr>] =
   \<lparr>dtype = int8, shape = s, vals = replicate n (- 64)\<rparr>"
  by (simp add: int8_add_replicate cast_int8_neg16 cast_int8_neg32 cast_int8_neg48
      int8_value_neg32 int8_value_neg48 int8_value_neg64)

lemma clipped_size_128:
  assumes "float_rounding (rnd float64)" and "float_rounding (rnd d)"
  shows "spec_clipped rnd d 128 gmax gmin x = 0"
proof -
  have p: "rnd float64 1 = 1" "rnd float64 0 = 0"
    using float_rounding_int [OF assms(1), of 1] float_rounding_int [OF assms(1), of 0]
    by simp_all
  have r: "rnd d 0 = 0"
    using float_rounding_int [OF assms(2), of 0] by simp
  show ?thesis
    by (simp add: spec_clipped_def py_float_def fl_mul_def fl_add_def clip_def
        round_half_even_def p r)
qed





lemma float_rounding_values:
  assumes "float_rounding r"
  shows "r 0 = 0" "r 1 = 1" "r 2 = 2" "r 4 = 4" "r (- 1) = - 1"
    "r 31 = 31" "r (- 31) = - 31" "r 32 = 32" "r 62 = 62" "r 63 = 63" "r 64 = 64" "r (- 64) = - 64"
    "r 127 = 127" "r (- 127) = - 127" "r 128 = 128" "r 190 = 190" "r 191 = 191" "r 254 = 254"
  using float_rounding_int [OF assms, of 0] float_rounding_int [OF assms, of 1]
    float_rounding_int [OF assms, of 2] float_rounding_int [OF assms, of 4]
    float_rounding_int [OF assms, of "- 1"] float_rounding_int [OF assms, of 31]
    float_rounding_int [OF assms, of "- 31"] float_rounding_int [OF assms, of 32]
    float_rounding_int [OF assms, of 62] float_rounding_int [OF assms, of 63]
    float_rounding_int [OF assms, of 64] float_rounding_int [OF assms, of "- 64"]
    float_rounding_int [OF assms, of 127] float_rounding_int [OF assms, of "- 127"]
    float_rounding_int [OF assms, of 128] float_rounding_int [OF assms, of 190]
    float_rounding_int [OF assms, of 191] float_rounding_int [OF assms, of 254]
  by simp_all

lemma float_rounding_fractions:
  assumes "float_rounding r"
  shows "r (1 / 2) = 1 / 2" "r (1 / 4) = 1 / 4" "r (3 / 2) = 3 / 2" "r (3 / 4) = 3 / 4"
    "r (31 / 2) = 31 / 2" "r (- (31 / 2)) = - (31 / 2)"
    "r (63 / 256) = 63 / 256" "r (63 / 64) = 63 / 64"
    "r (191 / 256) = 191 / 256" "r (193 / 256) = 193 / 256"
    "r (191 / 128) = 191 / 128" "r (193 / 128) = 193 / 128"
    "r (63 / 128) = 63 / 128" "r (65 / 128) = 65 / 128"
  using float_rounding_grid [OF assms, of 1 1] float_rounding_grid [OF assms, of 1 2]
    float_rounding_grid [OF assms, of 3 1] float_rounding_grid [OF assms, of 3 2]
    float_rounding_grid [OF assms, of 31 1] float_rounding_grid [OF assms, of "- 31" 1]
    float_rounding_grid [OF assms, of 63 8] float_rounding_grid [OF assms, of 63 6]
    float_rounding_grid [OF assms, of 191 8] float_rounding_grid [OF assms, of 193 8]
    float_rounding_grid [OF assms, of 191 7] float_rounding_grid [OF assms, of 193 7]
    float_rounding_grid [OF assms, of 63 7] float_rounding_grid [OF assms, of 65 7]
  by simp_all

lemma float_rounding_between:
  assumes "float_rounding r" and "r a = a" and "r b = b" and "a \<le> x" and "x \<le> b"
  shows "a \<le> r x" and "r x \<le> b"
  using float_rounding_ge [OF assms(1,2,4)] float_rounding_le [OF assms(1,3,5)]
  by simp_all

lemma int8_value_cast_of_int:
  assumes "- 128 \<le> k" and "k < 128"
  shows "int8_value (cast_int8 (real_of_int k)) = real_of_int k"
  using assms by (simp add: int8_value_def cast_int8_def trunc_of_int sint_word_of_int_int8)

lemma quantize_half:
  assumes P: "float_rounding (rnd float64)" and R: "float_rounding (rnd d)"
  shows "\<exists>k. (k = 63 \<or> k = 64) \<and>
           int8_value (spec_quantize rnd d 1 1 (- 1) (1 / 2)) = real_of_int k"
proof -
  note p = float_rounding_values [OF P]
  note r = float_rounding_values [OF R] float_rounding_fractions [OF R]
  define t3 where "t3 = rnd d (381 / 2)"
  define t4 where "t4 = rnd d (t3 - 127)"
  define k where "k = round_half_even t4"
  have lo3: "(190::real) \<le> 381 / 2" and hi3: "(381::real) / 2 \<le> 191"
    by simp_all
  have t3: "190 \<le> t3" "t3 \<le> 191"
    unfolding t3_def
    by (rule float_rounding_between(1) [OF R _ _ lo3 hi3]; simp add: r)
      (rule float_rounding_between(2) [OF R _ _ lo3 hi3]; simp add: r)
  then have lo4: "63 \<le> t3 - 127" and hi4: "t3 - 127 \<le> 64"
    by simp_all
  have t4: "63 \<le> t4" "t4 \<le> 64"
    unfolding t4_def
    by (rule float_rounding_between(1) [OF R _ _ lo4 hi4]; simp add: r)
      (rule float_rounding_between(2) [OF R _ _ lo4 hi4]; simp add: r)
  from t4(1) have "real_of_int 63 \<le> t4"
    by simp
  then have k63: "63 \<le> k"
    unfolding k_def by (rule round_half_even_ge)
  from t4(2) have "t4 \<le> real_of_int 64"
    by simp
  then have k64: "k \<le> 64"
    unfolding k_def by (rule round_half_even_le)
  have "spec_clipped rnd d 1 1 (- 1) (1 / 2) = clip (- 127) 127 (real_of_int k)"
    by (simp add: spec_clipped_def py_float_def fl_sub_def fl_truediv_def fl_mul_def fl_add_def
        p r k_def t4_def t3_def)
  also have "\<dots> = real_of_int k"
    using k63 k64 by (simp add: clip_def)
  finally have "int8_value (spec_quantize rnd d 1 1 (- 1) (1 / 2)) = real_of_int k"
    using k63 k64 by (simp add: spec_quantize_def int8_value_cast_of_int)
  moreover from k63 k64 have "k = 63 \<or> k = 64"
    by linarith
  ultimately show ?thesis
    by blast
qed

lemma dequantize_half:
  assumes P: "float_rounding (rnd float64)" and R: "float_rounding (rnd d)"
    and q: "q = 63 \<or> q = 64"
  shows "63 / 128 \<le> spec_dequantize rnd d 1 (- 1) (rnd d q)"
    and "spec_dequantize rnd d 1 (- 1) (rnd d q) \<le> 65 / 128"
proof -
  note p = float_rounding_values [OF P]
  note r = float_rounding_values [OF R] float_rounding_fractions [OF R]
  define n where "n = rnd d ((q + 127) / 254)"
  define m where "m = rnd d (n * 2)"
  from q have rq: "rnd d q = q" and rq127: "rnd d (q + 127) = q + 127"
    using r by auto
  from q have lo: "191 / 256 \<le> (q + 127) / 254" and hi: "(q + 127) / 254 \<le> 193 / 256"
    by auto
  have n: "191 / 256 \<le> n" "n \<le> 193 / 256"
    unfolding n_def
    by (rule float_rounding_between(1) [OF R _ _ lo hi]; simp add: r)
      (rule float_rounding_between(2) [OF R _ _ lo hi]; simp add: r)
  then have lo2: "191 / 128 \<le> n * 2" and hi2: "n * 2 \<le> 193 / 128"
    by simp_all
  have m: "191 / 128 \<le> m" "m \<le> 193 / 128"
    unfolding m_def
    by (rule float_rounding_between(1) [OF R _ _ lo2 hi2]; simp add: r)
      (rule float_rounding_between(2) [OF R _ _ lo2 hi2]; simp add: r)
  then have lo3: "63 / 128 \<le> m - 1" and hi3: "m - 1 \<le> 65 / 128"
    by simp_all
  have "63 / 128 \<le> rnd d (m - 1)" and "rnd d (m - 1) \<le> 65 / 128"
    by (rule float_rounding_between(1) [OF R _ _ lo3 hi3]; simp add: r)
      (rule float_rounding_between(2) [OF R _ _ lo3 hi3]; simp add: r)
  moreover have "spec_dequantize rnd d 1 (- 1) (rnd d q) = rnd d (m - 1)"
    by (simp add: spec_dequantize_def py_float_def fl_sub_def fl_truediv_def fl_mul_def
        fl_add_def p r rq rq127 m_def n_def)
  ultimately show "63 / 128 \<le> spec_dequantize rnd d 1 (- 1) (rnd d q)"
    and "spec_dequantize rnd d 1 (- 1) (rnd d q) \<le> 65 / 128"
    by simp_all
qed

lemma quantize_one:
  assumes P: "float_rounding (rnd float64)" and R: "float_rounding (rnd d)"
  shows "int8_value (spec_quantize rnd d 4 4 0 1) = - 16"
proof -
  note p = float_rounding_values [OF P]
  note r = float_rounding_values [OF R] float_rounding_fractions [OF R]
  have "round_half_even (- (31 / 2)) = - 16"
    by (simp add: round_half_even_def)
  then have "spec_clipped rnd d 4 4 0 1 = real_of_int (- 16)"
    by (simp add: spec_clipped_def py_float_def fl_sub_def fl_truediv_def fl_mul_def fl_add_def
        p r clip_def)
  then show ?thesis
    by (simp add: spec_quantize_def int8_value_def cast_int8_def trunc_def)
qed

lemma dequantize_sum:
  assumes P: "float_rounding (rnd float64)" and R: "float_rounding (rnd d)"
  shows "63 / 64 \<le> spec_dequantize rnd d 4 0 (rnd d (- 64))"
    and "spec_dequantize rnd d 4 0 (rnd d (- 64)) \<le> 1"
proof -
  note p = float_rounding_values [OF P]
  note r = float_rounding_values [OF R] float_rounding_fractions [OF R]
  define n where "n = rnd d (63 / 254)"
  define m where "m = rnd d (n * 4)"
  have lo: "(63::real) / 256 \<le> 63 / 254" and hi: "(63::real) / 254 \<le> 1 / 4"
    by simp_all
  have n: "63 / 256 \<le> n" "n \<le> 1 / 4"
    unfolding n_def
    by (rule float_rounding_between(1) [OF R _ _ lo hi]; simp add: r)
      (rule float_rounding_between(2) [OF R _ _ lo hi]; simp add: r)
  then have lo2: "63 / 64 \<le> n * 4" and hi2: "n * 4 \<le> 1"
    by simp_all
  have m: "63 / 64 \<le> m" "m \<le> 1"
    unfolding m_def
    by (rule float_rounding_between(1) [OF R _ _ lo2 hi2]; simp add: r)
      (rule float_rounding_between(2) [OF R _ _ lo2 hi2]; simp add: r)
  have "63 / 64 \<le> rnd d m" and "rnd d m \<le> 1"
    by (rule float_rounding_between(1) [OF R _ _ m]; simp add: r)
      (rule float_rounding_between(2) [OF R _ _ m]; simp add: r)
  moreover have "spec_dequantize rnd d 4 0 (rnd d (- 64)) = rnd d m"
    by (simp add: spec_dequantize_def py_float_def fl_sub_def fl_truediv_def fl_mul_def
        fl_add_def p r m_def n_def)
  ultimately show "63 / 64 \<le> spec_dequantize rnd d 4 0 (rnd d (- 64))"
    and "spec_dequantize rnd d 4 0 (rnd d (- 64)) \<le> 1"
    by simp_all
qed

lemma range_two:
  assumes P: "float_rounding (rnd float64)" and R: "float_rounding (rnd d)"
  shows "rnd d (py_float rnd (1 - (- 1))) \<noteq> 0" and "rnd d (py_float rnd (4 - 0)) \<noteq> 0"
  using float_rounding_values [OF P] float_rounding_values [OF R]
  by (simp_all add: py_float_def)

lemma float32_on_sum_scenario_values:
  "float32_on_sum_scenario d 0 = 0" "float32_on_sum_scenario d 1 = 1"
  "float32_on_sum_scenario d 4 = 4" "float32_on_sum_scenario d (1 / 4) = 1 / 4"
  "float32_on_sum_scenario d 32 = 32" "float32_on_sum_scenario d 31 = 31"
  "float32_on_sum_scenario d (- 31) = - 31" "float32_on_sum_scenario d 62 = 62"
  "float32_on_sum_scenario d (31 / 2) = 31 / 2"
  "float32_on_sum_scenario d (- (31 / 2)) = - (31 / 2)"
  "float32_on_sum_scenario d (- 64) = - 64" "float32_on_sum_scenario d (- 127) = - 127"
  "float32_on_sum_scenario d 63 = 63" "float32_on_sum_scenario d 254 = 254"
  "float32_on_sum_scenario d (63 / 254) = 2080639 / 8388608"
  "float32_on_sum_scenario d (2080639 / 2097152) = 2080639 / 2097152"
  by (simp_all add: float32_on_sum_scenario_def)

subsection \<open>NoneCompressor: the identity\<close>

text \<open>
  C8. For every tensor \<open>t\<close>, \<open>NoneCompressor.compress(t)\<close> is \<open>(t, None)\<close>, and
  \<open>NoneCompressor.decompress\<close> applied to that pair gives back \<open>t\<close> itself.
\<close>

theorem NoneCompressor_roundtrip:
  "NoneCompressor_compress t = (t, None) \<and>
   (case NoneCompressor_compress t of
      (payload, ctx) \<Rightarrow> NoneCompressor_decompress payload ctx) = t"
  by (simp add: NoneCompressor_compress_def NoneCompressor_decompress_def)

subsection \<open>FP16Compressor: the casts\<close>

text \<open>
  C7. \<open>FP16Compressor.compress(t)\<close> is the cast of \<open>t\<close> to float16 paired with
  \<open>dtype(t)\<close> when \<open>dtype(t)\<close> is floating, and \<open>(t, dtype(t))\<close> otherwise;
  \<open>FP16Compressor.decompress(t', ctx)\<close> is \<open>t'\<close> cast to \<open>ctx\<close> when \<open>ctx\<close> is
  floating and \<open>t'\<close> otherwise; so for a floating \<open>t\<close> the dtype of
  \<open>decompress(compress(t))\<close> is \<open>dtype(t)\<close>.
\<close>

theorem FP16Compressor_casts:
  "FP16Compressor_compress rnd t =
     (if is_floating (dtype t)
      then \<lparr>dtype = float16, shape = shape t, vals = map (rnd float16) (vals t)\<rparr>
      else t, dtype t) \<and>
   FP16Compressor_decompress rnd t' ctx =
     (if is_floating ctx
      then \<lparr>dtype = ctx, shape = shape t', vals = map (rnd ctx) (vals t')\<rparr>
      else t') \<and>
   (is_floating (dtype t) \<longrightarrow>
     (case FP16Compressor_compress rnd t of
        (payload, c) \<Rightarrow> dtype (FP16Compressor_decompress rnd payload c)) = dtype t)"
  by (simp add: FP16Compressor_compress_def FP16Compressor_decompress_def
      tf_cast_floating tf_cast_float16)

theorem FP16Compressor_casts_witness:
  "is_floating (dtype \<lparr>dtype = float64, shape = [2], vals = [1, 3 / 2]\<rparr>) \<and>
   (case FP16Compressor_compress (\<lambda>d x. x) \<lparr>dtype = float64, shape = [2], vals = [1, 3 / 2]\<rparr> of
      (payload, c) \<Rightarrow> dtype (FP16Compressor_decompress (\<lambda>d x. x) payload c)) = float64"
  using FP16Compressor_casts
    [of "\<lambda>d x. x" "\<lparr>dtype = float64, shape = [2], vals = [1, 3 / 2]\<rparr>"]
  by simp

subsection \<open>Tensors that are not floating-point\<close>

text \<open>
  C4, as amended. For every tensor \<open>t\<close> whose dtype is not floating-point:
  \<open>FP16Compressor.compress(t)\<close> and \<open>INT8Compressor.compress(t, ...)\<close> return
  \<open>(t, dtype(t))\<close>, for any \<open>horovod_size\<close>, \<open>global_max\<close> and \<open>global_min\<close>;
  \<open>NoneCompressor.compress(t)\<close> returns \<open>(t, None)\<close>; and \<open>decompress(t, dtype(t))\<close>
  returns \<open>t\<close> unchanged for all three.
\<close>

theorem non_floating_pass_through:
  assumes "\<not> is_floating (dtype t)"
  shows "NoneCompressor_compress t = (t, None) \<and>
         NoneCompressor_decompress t (Some (dtype t)) = t \<and>
         FP16Compressor_compress rnd t = (t, dtype t) \<and>
         FP16Compressor_decompress rnd t (dtype t) = t \<and>
         INT8Compressor_compress rnd nan_int8 t horovod_size global_max global_min =
           Inr (t, dtype t) \<and>
         INT8Compressor_decompress rnd t (dtype t) global_max global_min = t"
  using assms
  by (simp add: NoneCompressor_compress_def NoneCompressor_decompress_def
      FP16Compressor_compress_def FP16Compressor_decompress_def
      INT8Compressor_compress_def INT8Compressor_decompress_def)

theorem non_floating_pass_through_witness:
  "\<not> is_floating (dtype \<lparr>dtype = int32, shape = [2], vals = [7, - 3]\<rparr>) \<and>
   FP16Compressor_compress (\<lambda>d x. x) \<lparr>dtype = int32, shape = [2], vals = [7, - 3]\<rparr> =
     (\<lparr>dtype = int32, shape = [2], vals = [7, - 3]\<rparr>, int32) \<and>
   INT8Compressor_compress (\<lambda>d x. x) 0 \<lparr>dtype = int32, shape = [2], vals = [7, - 3]\<rparr> 0 1 1 =
     Inr (\<lparr>dtype = int32, shape = [2], vals = [7, - 3]\<rparr>, int32) \<and>
   INT8Compressor_decompress (\<lambda>d x. x) \<lparr>dtype = int32, shape = [2], vals = [7, - 3]\<rparr> int32 1 1 =
     \<lparr>dtype = int32, shape = [2], vals = [7, - 3]\<rparr>"
  using non_floating_pass_through
    [of "\<lparr>dtype = int32, shape = [2], vals = [7, - 3]\<rparr>" "\<lambda>d x. x" 0 0 1 1]
  by simp

text \<open>
  The claim as stated asks \<open>(t, dtype(t))\<close> of all three strategies. At the int32 tensor
  \<open>[7, -3]\<close> \<open>NoneCompressor.compress\<close> returns the context \<open>None\<close>.
\<close>

theorem non_floating_pass_through_counterexample:
  "\<not> is_floating (dtype \<lparr>dtype = int32, shape = [2], vals = [7, - 3]\<rparr>) \<and>
   NoneCompressor_compress \<lparr>dtype = int32, shape = [2], vals = [7, - 3]\<rparr> \<noteq>
     (\<lparr>dtype = int32, shape = [2], vals = [7, - 3]\<rparr>,
      Some (dtype \<lparr>dtype = int32, shape = [2], vals = [7, - 3]\<rparr>))"
  by (simp add: NoneCompressor_compress_def)

subsection \<open>INT8Compressor: the two affine maps\<close>

text \<open>
  C2. For every floating-point tensor, \<open>horovod_size \<ge> 1\<close> and
  \<open>global_max > global_min\<close> (whose difference is not zero in the tensor's dtype),
  \<open>INT8Compressor.compress\<close> returns the int8 tensor of the same shape whose elements are
  \<open>spec_quantize\<close> of the input's elements (the affine map onto
  \<open>[valid_min, valid_max]\<close> with \<open>valid_max = 2^7/horovod_size - 1\<close> and
  \<open>valid_min = -valid_max\<close>, rounded, clipped and cast to signed 8-bit, each operation
  in the arithmetic of the runtime), paired with the input's dtype. The cast loses nothing
  but the fraction: the 8-bit value is the clipped value rounded towards zero, and lies
  between -127 and 127. This holds for every rounding onto the dtypes that is a
  \<open>float_rounding\<close>.
\<close>

theorem INT8Compressor_compress_quantizes:
  assumes "is_floating (dtype t)" and "1 \<le> horovod_size" and "global_min < global_max"
    and "float_rounding (rnd float64)" and "float_rounding (rnd (dtype t))"
    and "rnd (dtype t) (py_float rnd (global_max - global_min)) \<noteq> 0"
  shows "INT8Compressor_compress rnd nan_int8 t horovod_size global_max global_min =
           Inr (\<lparr>dtype = int8, shape = shape t,
                  vals = map (\<lambda>x. int8_value
                             (spec_quantize rnd (dtype t) horovod_size global_max global_min x))
                           (vals t)\<rparr>, dtype t) \<and>
         sint (spec_quantize rnd (dtype t) horovod_size global_max global_min x) =
           trunc (spec_clipped rnd (dtype t) horovod_size global_max global_min x) \<and>
         - 127 \<le> sint (spec_quantize rnd (dtype t) horovod_size global_max global_min x) \<and>
         sint (spec_quantize rnd (dtype t) horovod_size global_max global_min x) \<le> 127"
proof -
  from assms(2) have "horovod_size \<noteq> 0"
    by simp
  with assms(1) have "INT8Compressor_compress rnd nan_int8 t horovod_size global_max global_min =
      Inr (\<lparr>dtype = int8, shape = shape t,
             vals = map (\<lambda>x. int8_value
                        (spec_quantize rnd (dtype t) horovod_size global_max global_min x))
                      (vals t)\<rparr>, dtype t)"
    using assms(4,6) by (rule INT8_compress_floating)
  moreover note quantize_exact [of rnd "dtype t", OF assms(4,5,2)]
    quantize_within [of rnd "dtype t", OF assms(4,5,2)]
  ultimately show ?thesis
    by simp
qed

theorem INT8Compressor_compress_quantizes_witness:
  "is_floating (dtype \<lparr>dtype = float32, shape = [3], vals = [1, 3, 9]\<rparr>) \<and>
   (1::int) \<le> 3 \<and> (0::real) < 4 \<and>
   float_rounding ((\<lambda>d x. x) float64) \<and>
   float_rounding ((\<lambda>d x. x) (dtype \<lparr>dtype = float32, shape = [3], vals = [1, 3, 9]\<rparr>)) \<and>
   (\<lambda>d x. x) float32 (py_float (\<lambda>d x. x) (4 - 0)) \<noteq> (0::real) \<and>
   INT8Compressor_compress (\<lambda>d x. x) 0 \<lparr>dtype = float32, shape = [3], vals = [1, 3, 9]\<rparr> 3 4 0 =
     Inr (\<lparr>dtype = int8, shape = [3], vals = [- 21, 21, 41]\<rparr>, float32)"
  using INT8Compressor_compress_quantizes
    [of "\<lparr>dtype = float32, shape = [3], vals = [1, 3, 9]\<rparr>" 3 0 4 "\<lambda>d x. x" 0]
  by (simp add: float_rounding_id spec_quantize_def spec_clipped_def clip_def
      round_half_even_def cast_int8_def trunc_def int8_value_def py_float_def
      fl_sub_def fl_truediv_def fl_mul_def fl_add_def)

text \<open>
  C3. \<open>INT8Compressor.decompress(t, ctx, global_max, global_min)\<close> with a floating
  \<open>ctx\<close> casts \<open>t\<close> to \<open>ctx\<close> and maps each cast element \<open>x\<close> to
  \<open>(x - valid_min) / (valid_max - valid_min) * (global_max - global_min) + global_min\<close>
  with the full range \<open>valid_max = 127\<close>, \<open>valid_min = -127\<close>, every operation rounded
  onto \<open>ctx\<close>; with a \<open>ctx\<close> that is not floating it returns \<open>t\<close> unchanged.
\<close>

theorem INT8Compressor_decompress_dequantizes:
  "INT8Compressor_decompress rnd t ctx global_max global_min =
     (if is_floating ctx
      then \<lparr>dtype = ctx, shape = shape t,
             vals = map (spec_dequantize rnd ctx global_max global_min)
                      (vals (tf_cast rnd t ctx))\<rparr>
      else t) \<and>
   (float_rounding (rnd ctx) \<longrightarrow>
     spec_dequantize rnd ctx global_max global_min x =
       rnd ctx (rnd ctx (rnd ctx (rnd ctx (x - (- 127)) / (127 - (- 127))) *
                         rnd ctx (rnd float64 (global_max - global_min))) +
                rnd ctx global_min))"
proof -
  have a: "INT8Compressor_decompress rnd t ctx global_max global_min =
     (if is_floating ctx
      then \<lparr>dtype = ctx, shape = shape t,
             vals = map (spec_dequantize rnd ctx global_max global_min)
                      (vals (tf_cast rnd t ctx))\<rparr>
      else t)"
    by (simp add: INT8_decompress_floating o_def) (simp add: INT8Compressor_decompress_def)
  have b: "spec_dequantize rnd ctx global_max global_min x =
       rnd ctx (rnd ctx (rnd ctx (rnd ctx (x - (- 127)) / (127 - (- 127))) *
                         rnd ctx (rnd float64 (global_max - global_min))) +
                rnd ctx global_min)" if "float_rounding (rnd ctx)"
  proof -
    have "rnd ctx (- 127) = - 127" "rnd ctx 254 = 254"
      using float_rounding_int [OF that, of "- 127"] float_rounding_int [OF that, of 254]
      by simp_all
    then show ?thesis
      by (simp add: spec_dequantize_def fl_sub_def fl_truediv_def fl_mul_def fl_add_def
          py_float_def)
  qed
  from a b show ?thesis
    by blast
qed

theorem INT8Compressor_decompress_dequantizes_witness:
  "float_rounding ((\<lambda>d x. x) float32) \<and>
   INT8Compressor_decompress (\<lambda>d x. x) \<lparr>dtype = int8, shape = [2], vals = [- 64, 64]\<rparr>
     float32 4 0 =
     \<lparr>dtype = float32, shape = [2],
      vals = [spec_dequantize (\<lambda>d x. x) float32 4 0 (- 64),
              spec_dequantize (\<lambda>d x. x) float32 4 0 64]\<rparr> \<and>
   spec_dequantize (\<lambda>d x. x) float32 4 0 (- 64) = 126 / 127 \<and>
   spec_dequantize (\<lambda>d x. x) float32 4 0 64 = 382 / 127"
  using INT8Compressor_decompress_dequantizes
    [of "\<lambda>d x. x" "\<lparr>dtype = int8, shape = [2], vals = [- 64, 64]\<rparr>" float32 4 0 "- 64"]
    INT8Compressor_decompress_dequantizes
    [of "\<lambda>d x. x" "\<lparr>dtype = int8, shape = [2], vals = [- 64, 64]\<rparr>" float32 4 0 64]
  by (simp add: float_rounding_id cast_value_def)

text \<open>
  C10. For every floating-point tensor and \<open>global_max > global_min\<close> (whose difference
  is not zero in the tensor's dtype), \<open>INT8Compressor.compress\<close> with
  \<open>horovod_size = 128\<close> (where \<open>valid_max = valid_min = 0\<close>) returns the all-zero int8
  tensor of the input's shape, whatever the input's elements are: every element is already
  0 after the affine map, the rounding and the clipping.
\<close>

theorem INT8Compressor_compress_size_128:
  assumes "is_floating (dtype t)" and "global_min < global_max"
    and "float_rounding (rnd float64)" and "float_rounding (rnd (dtype t))"
    and "rnd (dtype t) (py_float rnd (global_max - global_min)) \<noteq> 0"
  shows "INT8Compressor_compress rnd nan_int8 t 128 global_max global_min =
           Inr (\<lparr>dtype = int8, shape = shape t, vals = replicate (length (vals t)) 0\<rparr>, dtype t) \<and>
         spec_clipped rnd (dtype t) 128 global_max global_min x = 0"
proof -
  have "INT8Compressor_compress rnd nan_int8 t 128 global_max global_min =
      Inr (\<lparr>dtype = int8, shape = shape t,
             vals = map (\<lambda>x. int8_value (spec_quantize rnd (dtype t) 128 global_max global_min x))
                      (vals t)\<rparr>, dtype t)"
    using assms(1) _ assms(3,5) by (rule INT8_compress_floating) simp
  moreover note z = clipped_size_128 [of rnd "dtype t", OF assms(3,4)]
  moreover have "int8_value (spec_quantize rnd (dtype t) 128 global_max global_min x) = 0" for x
    by (simp add: spec_quantize_def z cast_int8_def trunc_def int8_value_def)
  ultimately show ?thesis
    by (simp add: map_replicate_const)
qed

theorem INT8Compressor_compress_size_128_witness:
  "is_floating (dtype \<lparr>dtype = float32, shape = [3], vals = [- 7, 1 / 3, 1000]\<rparr>) \<and>
   (- 1::real) < 1 \<and>
   float_rounding ((\<lambda>d x. x) float64) \<and> float_rounding ((\<lambda>d x. x) float32) \<and>
   (\<lambda>d x. x) float32 (py_float (\<lambda>d x. x) (1 - (- 1))) \<noteq> (0::real) \<and>
   INT8Compressor_compress (\<lambda>d x. x) 0
       \<lparr>dtype = float32, shape = [3], vals = [- 7, 1 / 3, 1000]\<rparr> 128 1 (- 1) =
     Inr (\<lparr>dtype = int8, shape = [3], vals = [0, 0, 0]\<rparr>, float32)"
  using INT8Compressor_compress_size_128
    [of "\<lparr>dtype = float32, shape = [3], vals = [- 7, 1 / 3, 1000]\<rparr>" "- 1" 1 "\<lambda>d x. x" 0]
  by (simp add: numeral_3_eq_3 float_rounding_id py_float_def)

subsection \<open>INT8Compressor: elements outside the range\<close>




subsection \<open>INT8Compressor: the two scenarios of the specification\<close>

text \<open>
  C5. With \<open>horovod_size = 1\<close>, \<open>global_min = -1\<close>, \<open>global_max = 1\<close>, a floating-point
  tensor holding \<open>0.5\<close> is compressed to an int8 value \<open>q\<close> that is 63 or 64 (the
  scaled value 63.5 is a tie, and a dtype that cannot hold 190.5 rounds before it), and
  decompressed to a value \<open>y\<close> whose distance from \<open>0.5\<close> is at most one quantisation
  step \<open>(global_max - global_min) / 254\<close>, for every \<open>float_rounding\<close>.
\<close>

theorem INT8Compressor_roundtrip_half:
  assumes "is_floating d" and "float_rounding (rnd float64)" and "float_rounding (rnd d)"
  shows "let q = int8_value (spec_quantize rnd d 1 1 (- 1) (1 / 2));
             y = spec_dequantize rnd d 1 (- 1) (rnd d q)
         in INT8Compressor_compress rnd nan_int8
              \<lparr>dtype = d, shape = s, vals = replicate n (1 / 2)\<rparr> 1 1 (- 1) =
              Inr (\<lparr>dtype = int8, shape = s, vals = replicate n q\<rparr>, d) \<and>
            INT8Compressor_decompress rnd \<lparr>dtype = int8, shape = s, vals = replicate n q\<rparr>
              d 1 (- 1) = \<lparr>dtype = d, shape = s, vals = replicate n y\<rparr> \<and>
            (q = 63 \<or> q = 64) \<and>
            \<bar>y - 1 / 2\<bar> \<le> (1 - (- 1)) / 254"
proof -
  define q where "q = int8_value (spec_quantize rnd d 1 1 (- 1) (1 / 2))"
  define y where "y = spec_dequantize rnd d 1 (- 1) (rnd d q)"
  from quantize_half [of rnd d, OF assms(2,3)] have q: "q = 63 \<or> q = 64"
    unfolding q_def by auto
  have y: "63 / 128 \<le> y" "y \<le> 65 / 128"
    unfolding y_def by (rule dequantize_half [of rnd d, OF assms(2,3) q])+
  have c: "cast_value rnd d q = rnd d q"
    using assms(1) by (auto simp: cast_value_def)
  have "INT8Compressor_compress rnd nan_int8
      \<lparr>dtype = d, shape = s, vals = replicate n (1 / 2)\<rparr> 1 1 (- 1) =
      Inr (\<lparr>dtype = int8, shape = s, vals = replicate n q\<rparr>, d)"
    using assms(1) range_two(1) [of rnd d, OF assms(2,3)]
    by (simp add: INT8_compress_floating [of _ _ rnd, OF _ _ assms(2)] q_def)
  moreover have "INT8Compressor_decompress rnd \<lparr>dtype = int8, shape = s, vals = replicate n q\<rparr>
      d 1 (- 1) = \<lparr>dtype = d, shape = s, vals = replicate n y\<rparr>"
    using assms(1) by (simp add: INT8_decompress_floating c y_def)
  moreover have "\<bar>y - 1 / 2\<bar> \<le> (1 - (- 1)) / 254"
  proof -
    from y have "- (1 / 127) \<le> y - 1 / 2" and "y - 1 / 2 \<le> 1 / 127"
      by linarith+
    then have "\<bar>y - 1 / 2\<bar> \<le> 1 / 127"
      by (intro abs_leI) linarith+
    then show ?thesis
      by simp
  qed
  ultimately show ?thesis
    using q unfolding Let_def q_def [symmetric] y_def [symmetric] by blast
qed

theorem INT8Compressor_roundtrip_half_witness:
  "is_floating float32 \<and> float_rounding ((\<lambda>d x. x) float64) \<and>
   float_rounding ((\<lambda>d x. x) float32) \<and>
   INT8Compressor_compress (\<lambda>d x. x) 0 \<lparr>dtype = float32, shape = [1], vals = [1 / 2]\<rparr> 1 1 (- 1) =
     Inr (\<lparr>dtype = int8, shape = [1], vals = [64]\<rparr>, float32) \<and>
   INT8Compressor_decompress (\<lambda>d x. x) \<lparr>dtype = int8, shape = [1], vals = [64]\<rparr> float32 1 (- 1) =
     \<lparr>dtype = float32, shape = [1], vals = [64 / 127]\<rparr> \<and>
   \<bar>(64::real) / 127 - 1 / 2\<bar> \<le> (1 - (- 1)) / 254"
  using INT8Compressor_roundtrip_half [of float32 "\<lambda>d x. x" 0 "[1]" 1]
  by (simp add: float_rounding_id spec_quantize_def spec_clipped_def spec_dequantize_def
      clip_def round_half_even_def cast_int8_def trunc_def int8_value_def py_float_def
      fl_sub_def fl_truediv_def fl_mul_def fl_add_def Let_def)

text \<open>
  C1, as amended. With \<open>horovod_size = 4\<close>, \<open>global_min = 0\<close>, \<open>global_max = 4\<close>, each
  of four peers compresses the value \<open>1\<close> to the int8 value \<open>-16\<close>; the elementwise int8
  sum of the four payloads is \<open>-64\<close>; decompressing it gives a value \<open>y\<close> between
  \<open>63/64\<close> and \<open>1\<close> (it is \<open>126/127\<close> up to the rounding of the dtype), which is within
  \<open>4 * step / 2\<close> of \<open>1\<close>, the mean of the four peers' values, where
  \<open>step = (global_max - global_min) / (valid_max - valid_min)\<close> and
  \<open>valid_max = 2^7/4 - 1 = 31\<close>, for every \<open>float_rounding\<close>.
\<close>

theorem INT8Compressor_sum_then_decompress:
  assumes "is_floating d" and "float_rounding (rnd float64)" and "float_rounding (rnd d)"
  shows "let y = spec_dequantize rnd d 4 0 (rnd d (- 64))
         in INT8Compressor_compress rnd nan_int8
              \<lparr>dtype = d, shape = s, vals = replicate n 1\<rparr> 4 4 0 =
              Inr (\<lparr>dtype = int8, shape = s, vals = replicate n (- 16)\<rparr>, d) \<and>
            allreduce_sum \<lparr>dtype = int8, shape = s, vals = replicate n (- 16)\<rparr>
              [\<lparr>dtype = int8, shape = s, vals = replicate n (- 16)\<rparr>,
               \<lparr>dtype = int8, shape = s, vals = replicate n (- 16)\<rparr>,
               \<lparr>dtype = int8, shape = s, vals = replicate n (- 16)\<rparr>] =
              \<lparr>dtype = int8, shape = s, vals = replicate n (- 64)\<rparr> \<and>
            INT8Compressor_decompress rnd
              \<lparr>dtype = int8, shape = s, vals = replicate n (- 64)\<rparr> d 4 0 =
              \<lparr>dtype = d, shape = s, vals = replicate n y\<rparr> \<and>
            63 / 64 \<le> y \<and> y \<le> 1 \<and>
            \<bar>y - 1\<bar> \<le>
              4 * ((4 - 0) / (2 ^ 7 / real_of_int 4 - 1 - - (2 ^ 7 / real_of_int 4 - 1))) / 2"
proof -
  define y where "y = spec_dequantize rnd d 4 0 (rnd d (- 64))"
  have y: "63 / 64 \<le> y" "y \<le> 1"
    unfolding y_def by (rule dequantize_sum [of rnd d, OF assms(2,3)])+
  have c: "cast_value rnd d (- 64) = rnd d (- 64)"
    using assms(1) by (auto simp: cast_value_def)
  have "INT8Compressor_compress rnd nan_int8
      \<lparr>dtype = d, shape = s, vals = replicate n 1\<rparr> 4 4 0 =
      Inr (\<lparr>dtype = int8, shape = s, vals = replicate n (- 16)\<rparr>, d)"
    using assms(1) range_two(2) [of rnd d, OF assms(2,3)]
    by (simp add: INT8_compress_floating [of _ _ rnd, OF _ _ assms(2)]
        quantize_one [of rnd d, OF assms(2,3)])
  moreover have "INT8Compressor_decompress rnd
      \<lparr>dtype = int8, shape = s, vals = replicate n (- 64)\<rparr> d 4 0 =
      \<lparr>dtype = d, shape = s, vals = replicate n y\<rparr>"
    using assms(1) by (simp add: INT8_decompress_floating c y_def)
  moreover note allreduce_sum_four [of s n]
  moreover have "\<bar>y - 1\<bar> \<le>
      4 * ((4 - 0) / (2 ^ 7 / real_of_int 4 - 1 - - (2 ^ 7 / real_of_int 4 - 1))) / 2"
  proof -
    from y have "- (4 / 31) \<le> y - 1" and "y - 1 \<le> 4 / 31"
      by linarith+
    then have "\<bar>y - 1\<bar> \<le> 4 / 31"
      by (intro abs_leI) linarith+
    then show ?thesis
      by simp
  qed
  ultimately show ?thesis
    using y unfolding Let_def y_def [symmetric] by blast
qed

theorem INT8Compressor_sum_then_decompress_witness:
  "is_floating float32 \<and> float_rounding ((\<lambda>d x. x) float64) \<and>
   float_rounding ((\<lambda>d x. x) float32) \<and>
   INT8Compressor_compress (\<lambda>d x. x) 0 \<lparr>dtype = float32, shape = [1], vals = [1]\<rparr> 4 4 0 =
     Inr (\<lparr>dtype = int8, shape = [1], vals = [- 16]\<rparr>, float32) \<and>
   allreduce_sum \<lparr>dtype = int8, shape = [1], vals = [- 16]\<rparr>
     [\<lparr>dtype = int8, shape = [1], vals = [- 16]\<rparr>,
      \<lparr>dtype = int8, shape = [1], vals = [- 16]\<rparr>,
      \<lparr>dtype = int8, shape = [1], vals = [- 16]\<rparr>] =
     \<lparr>dtype = int8, shape = [1], vals = [- 64]\<rparr> \<and>
   INT8Compressor_decompress (\<lambda>d x. x) \<lparr>dtype = int8, shape = [1], vals = [- 64]\<rparr> float32 4 0 =
     \<lparr>dtype = float32, shape = [1], vals = [126 / 127]\<rparr> \<and>
   (63::real) / 64 \<le> 126 / 127 \<and> (126::real) / 127 \<le> 1"
  using INT8Compressor_sum_then_decompress [of float32 "\<lambda>d x. x" 0 "[1]" 1]
  by (simp add: float_rounding_id spec_dequantize_def py_float_def
      fl_sub_def fl_truediv_def fl_mul_def fl_add_def Let_def)

text \<open>
  The claim as stated expects the reconstructed value within \<open>4 * step / 2\<close> of the sum
  \<open>4\<close>. For a float32 tensor the value is \<open>2080639/2097152\<close>, more than \<open>3\<close> away
  from it. The rounding below is float32's (and the double's) on this computation: every
  value it meets is held exactly, except \<open>63/254\<close>, which float32 rounds to
  \<open>2080639/8388608\<close>.
\<close>

theorem INT8Compressor_sum_then_decompress_counterexample:
  "INT8Compressor_compress float32_on_sum_scenario 0
     \<lparr>dtype = float32, shape = [1], vals = [1]\<rparr> 4 4 0 =
     Inr (\<lparr>dtype = int8, shape = [1], vals = [- 16]\<rparr>, float32) \<and>
   allreduce_sum \<lparr>dtype = int8, shape = [1], vals = [- 16]\<rparr>
     [\<lparr>dtype = int8, shape = [1], vals = [- 16]\<rparr>,
      \<lparr>dtype = int8, shape = [1], vals = [- 16]\<rparr>,
      \<lparr>dtype = int8, shape = [1], vals = [- 16]\<rparr>] =
     \<lparr>dtype = int8, shape = [1], vals = [- 64]\<rparr> \<and>
   INT8Compressor_decompress float32_on_sum_scenario
     \<lparr>dtype = int8, shape = [1], vals = [- 64]\<rparr> float32 4 0 =
     \<lparr>dtype = float32, shape = [1], vals = [2080639 / 2097152]\<rparr> \<and>
   \<not> \<bar>2080639 / 2097152 - 4\<bar> \<le>
       4 * (((4::real) - 0) / (2 ^ 7 / real_of_int 4 - 1 - - (2 ^ 7 / real_of_int 4 - 1))) / 2"
proof -
  have "INT8Compressor_compress float32_on_sum_scenario 0
      \<lparr>dtype = float32, shape = [1], vals = [1]\<rparr> 4 4 0 =
      Inr (\<lparr>dtype = int8, shape = [1], vals = [- 16]\<rparr>, float32)"
    by (simp add: INT8Compressor_compress_def py_float_def float32_on_sum_scenario_values
        fl_sub_def fl_truediv_def fl_mul_def fl_add_def clip_def cast_value_def cast_int8_def
        int8_value_def trunc_def round_half_even_def tensor_eqI)
  moreover have "INT8Compressor_decompress float32_on_sum_scenario
      \<lparr>dtype = int8, shape = [1], vals = [- 64]\<rparr> float32 4 0 =
      \<lparr>dtype = float32, shape = [1], vals = [2080639 / 2097152]\<rparr>"
    by (simp add: INT8Compressor_decompress_def py_float_def float32_on_sum_scenario_values
        fl_sub_def fl_truediv_def fl_mul_def fl_add_def cast_value_def tensor_eqI)
  moreover have "allreduce_sum \<lparr>dtype = int8, shape = [1], vals = [- 16]\<rparr>
      [\<lparr>dtype = int8, shape = [1], vals = [- 16]\<rparr>,
       \<lparr>dtype = int8, shape = [1], vals = [- 16]\<rparr>,
       \<lparr>dtype = int8, shape = [1], vals = [- 16]\<rparr>] =
      \<lparr>dtype = int8, shape = [1], vals = [- 64]\<rparr>"
    using allreduce_sum_four [of "[1]" 1] by simp
  moreover have "\<not> \<bar>2080639 / 2097152 - 4\<bar> \<le>
      4 * (((4::real) - 0) / (2 ^ 7 / real_of_int 4 - 1 - - (2 ^ 7 / real_of_int 4 - 1))) / 2"
    by simp
  ultimately show ?thesis
    by (simp only: simp_thms)
qed

end
